theory Spec2Isabelle
  imports Complex_Main "HOL-Library.Word"
begin

section \<open>The fragment of JavaScript the models are written in\<close>

text \<open>
  The code under verification is three JavaScript modules: the helper
  \<^verbatim>\<open>sqlForPartialUpdate\<close> and the classes \<^verbatim>\<open>Company\<close> and \<^verbatim>\<open>Job\<close>.
  The values they handle are request data: the primitives below.  A number is
  \<^verbatim>\<open>NaN\<close> or an integer from \<^verbatim>\<open>-2^53\<close> to \<^verbatim>\<open>2^53 - 1\<close>, held in 54 bits and read as
  a signed value: each of these is a JavaScript number, is written by
  number-to-string conversion in plain decimal, and compares as the integer it is.
  Other numbers (fractions, larger magnitudes, infinities) are not values of the
  model.  A string is a list of characters, each a code unit below 256.  The only
  objects a value can be are the members every object literal inherits from
  \<^verbatim>\<open>Object.prototype\<close>, which a property read such as \<^verbatim>\<open>jsToSql[colName]\<close>
  reaches for a key like \<^verbatim>\<open>constructor\<close>: a built-in function, given by its
  name, and the prototype object itself.
\<close>

datatype jsval =
    JUndefined
  | JNull
  | JBool bool
  | JNum "54 word"
  | JNaN
  | JStr string
  | JBuiltin string
  | JObjectPrototype

text \<open>
  Decimal numerals, as number-to-string conversion writes an integer of fewer than
  22 digits.
\<close>

definition digit_char :: "nat \<Rightarrow> char" where
  "digit_char d = ''0123456789'' ! d"

fun string_of_nat :: "nat \<Rightarrow> string" where
  "string_of_nat n =
     (if n < 10 then [digit_char n]
      else string_of_nat (n div 10) @ [digit_char (n mod 10)])"

declare string_of_nat.simps [simp del]

definition string_of_int :: "int \<Rightarrow> string" where
  "string_of_int i =
     (if i < 0 then ''-'' @ string_of_nat (nat (- i)) else string_of_nat (nat i))"

text \<open>\<^verbatim>\<open>ToBoolean\<close>: what \<^verbatim>\<open>if (v)\<close> and \<^verbatim>\<open>v || w\<close> test.\<close>

fun ToBoolean :: "jsval \<Rightarrow> bool" where
  "ToBoolean JUndefined = False"
| "ToBoolean JNull = False"
| "ToBoolean (JBool b) = b"
| "ToBoolean (JNum n) = (n \<noteq> 0)"
| "ToBoolean JNaN = False"
| "ToBoolean (JStr s) = (s \<noteq> [])"
| "ToBoolean (JBuiltin f) = True"
| "ToBoolean JObjectPrototype = True"

text \<open>\<^verbatim>\<open>ToString\<close>: what a template literal does to an interpolated value.\<close>

fun ToString :: "jsval \<Rightarrow> string" where
  "ToString JUndefined = ''undefined''"
| "ToString JNull = ''null''"
| "ToString (JBool b) = (if b then ''true'' else ''false'')"
| "ToString (JNum n) = string_of_int (sint n)"
| "ToString JNaN = ''NaN''"
| "ToString (JStr s) = s"
| "ToString (JBuiltin f) = ''function '' @ f @ ''() { [native code] }''"
| "ToString JObjectPrototype = ''[object Object]''"

text \<open>\<^verbatim>\<open>a || b\<close>\<close>

definition js_or :: "jsval \<Rightarrow> jsval \<Rightarrow> jsval" where
  "js_or a b = (if ToBoolean a then a else b)"

text \<open>
  An object is the list of its own enumerable properties, in the order
  \<^verbatim>\<open>Object.keys\<close> and \<^verbatim>\<open>Object.values\<close> enumerate them.
\<close>

type_synonym 'v jsobject = "(string \<times> 'v) list"

definition Object_keys :: "'v jsobject \<Rightarrow> string list" where
  "Object_keys obj = map fst obj"

definition Object_values :: "'v jsobject \<Rightarrow> 'v list" where
  "Object_values obj = map snd obj"

text \<open>The properties an object literal inherits from \<^verbatim>\<open>Object.prototype\<close>.\<close>

definition Object_prototype_functions :: "string list" where
  "Object_prototype_functions =
     [''__defineGetter__'', ''__defineSetter__'', ''hasOwnProperty'',
      ''__lookupGetter__'', ''__lookupSetter__'', ''isPrototypeOf'',
      ''propertyIsEnumerable'', ''toString'', ''valueOf'', ''toLocaleString'']"

definition Object_prototype_get :: "string \<Rightarrow> jsval" where
  "Object_prototype_get k =
     (if k = ''constructor'' then JBuiltin ''Object''
      else if k = ''__proto__'' then JObjectPrototype
      else if k \<in> set Object_prototype_functions then JBuiltin k
      else JUndefined)"

text \<open>The property read \<^verbatim>\<open>obj[k]\<close> on an object literal.\<close>

definition js_get :: "jsval jsobject \<Rightarrow> string \<Rightarrow> jsval" where
  "js_get obj k = (case map_of obj k of Some v \<Rightarrow> v | None \<Rightarrow> Object_prototype_get k)"

text \<open>\<^verbatim>\<open>Array.prototype.join\<close> on an array of strings.\<close>

fun js_join :: "string \<Rightarrow> string list \<Rightarrow> string" where
  "js_join sep [] = []"
| "js_join sep [x] = x"
| "js_join sep (x # y # ys) = x @ sep @ js_join sep (y # ys)"

text \<open>\<^verbatim>\<open>rows[0]\<close>: the first element, \<^verbatim>\<open>undefined\<close> (here \<open>None\<close>) on an empty array.\<close>

definition first_row :: "'a list \<Rightarrow> 'a option" where
  "first_row rows = (case rows of [] \<Rightarrow> None | r # _ \<Rightarrow> Some r)"

text \<open>
  The relational operator \<^verbatim>\<open>a > b\<close>.  Both operands are made primitive (an object
  by its string form); two strings compare character by character, any other pair as
  numbers, and a comparison with \<^verbatim>\<open>NaN\<close> is false.  The numeric value of an operand
  may be any number JavaScript has: a rational, an infinity or \<^verbatim>\<open>NaN\<close>.  How a string
  converts to a number is the runtime's business (rounding of decimal fractions,
  exponents, radix prefixes); the conversion is a parameter, \<open>stringToNumber\<close>,
  and nothing is assumed of it.
\<close>

datatype jsnumber = NaN | NegInfinity | Finite rat | PosInfinity

fun number_less :: "jsnumber \<Rightarrow> jsnumber \<Rightarrow> bool" where
  "number_less NaN y = False"
| "number_less x NaN = False"
| "number_less PosInfinity y = False"
| "number_less x NegInfinity = False"
| "number_less NegInfinity y = True"
| "number_less x PosInfinity = True"
| "number_less (Finite x) (Finite y) = (x < y)"

fun ToPrimitive :: "jsval \<Rightarrow> jsval" where
  "ToPrimitive (JBuiltin f) = JStr (ToString (JBuiltin f))"
| "ToPrimitive JObjectPrototype = JStr (ToString JObjectPrototype)"
| "ToPrimitive v = v"

text \<open>\<^verbatim>\<open>ToNumber\<close> of a primitive.\<close>

fun ToNumber :: "(string \<Rightarrow> jsnumber) \<Rightarrow> jsval \<Rightarrow> jsnumber" where
  "ToNumber stringToNumber JUndefined = NaN"
| "ToNumber stringToNumber JNull = Finite 0"
| "ToNumber stringToNumber (JBool b) = Finite (if b then 1 else 0)"
| "ToNumber stringToNumber (JNum n) = Finite (of_int (sint n))"
| "ToNumber stringToNumber JNaN = NaN"
| "ToNumber stringToNumber (JStr s) = stringToNumber s"
| "ToNumber stringToNumber v = NaN"

fun string_less :: "string \<Rightarrow> string \<Rightarrow> bool" where
  "string_less [] [] = False"
| "string_less [] (y # ys) = True"
| "string_less (x # xs) [] = False"
| "string_less (x # xs) (y # ys) =
     ((of_char x :: nat) < of_char y \<or> (x = y \<and> string_less xs ys))"

definition js_gt :: "(string \<Rightarrow> jsnumber) \<Rightarrow> jsval \<Rightarrow> jsval \<Rightarrow> bool" where
  "js_gt stringToNumber a b =
     (case (ToPrimitive a, ToPrimitive b) of
        (JStr s, JStr t) \<Rightarrow> string_less t s
      | (pa, pb) \<Rightarrow> number_less (ToNumber stringToNumber pb) (ToNumber stringToNumber pa))"

text \<open>Reading a decimal numeral back, to state which number a written position is.\<close>

definition nat_of_digits :: "string \<Rightarrow> nat" where
  "nat_of_digits s = foldl (\<lambda>acc ch. 10 * acc + (of_char ch - 48)) 0 s"

section \<open>Errors\<close>

text \<open>
  The two error classes the modules import from \<^verbatim>\<open>expressError\<close>, each with
  its message, and whatever the store's \<^verbatim>\<open>db.query\<close> throws, which no function
  here catches.
\<close>

datatype error =
    BadRequestError string
  | NotFoundError string
  | StoreError string

fun is_BadRequestError :: "error \<Rightarrow> bool" where
  "is_BadRequestError (BadRequestError m) = True"
| "is_BadRequestError e = False"

section \<open>helpers/sql: sqlForPartialUpdate\<close>

abbreviation dq :: char where
  "dq \<equiv> CHR 0x22"

text \<open>
  The object the helper returns, \<^verbatim>\<open>{ setCols, values }\<close>; the field \<^verbatim>\<open>values\<close> is
  \<open>values_of\<close> here.  The values of \<open>dataToUpdate\<close> are only passed on, so their type
  is left open.
\<close>

record 'v partial_update =
  setCols :: string
  values_of :: "'v list"

text \<open>The column name of one fragment: \<^verbatim>\<open>jsToSql[colName] || colName\<close>, interpolated.\<close>

definition column_name :: "jsval jsobject \<Rightarrow> string \<Rightarrow> string" where
  "column_name jsToSql colName = ToString (js_or (js_get jsToSql colName) (JStr colName))"

text \<open>The callback of \<^verbatim>\<open>keys.map\<close>: one fragment, from a key and its index.\<close>

definition set_fragment :: "jsval jsobject \<Rightarrow> string \<Rightarrow> nat \<Rightarrow> string" where
  "set_fragment jsToSql colName idx =
     [dq] @ column_name jsToSql colName @ [dq] @ ''=$'' @ string_of_nat (idx + 1)"

definition sqlForPartialUpdate ::
  "'v jsobject \<Rightarrow> jsval jsobject \<Rightarrow> error + 'v partial_update" where
  "sqlForPartialUpdate dataToUpdate jsToSql =
     (let keys = Object_keys dataToUpdate in
      if length keys = 0 then Inl (BadRequestError ''No data'')
      else
        let cols = map (\<lambda>(idx, colName). set_fragment jsToSql colName idx) (enumerate 0 keys)
        in Inr \<lparr>setCols = js_join '', '' cols, values_of = Object_values dataToUpdate\<rparr>)"

section \<open>The store\<close>

text \<open>
  \<^verbatim>\<open>db.query(sql, params)\<close> belongs to the database client, outside the modules.
  It is a parameter here: a function from the store's state, the statement and its
  positional parameters to the rows returned (or the error thrown) and the store's
  next state.  A connection pairs the store with the list of the statements executed
  so far, so that what a function sends to the store, and in which order, is part of
  its result.
\<close>

type_synonym row = "jsval jsobject"

type_synonym statement = "string \<times> jsval list"

type_synonym 'db db_exec = "'db \<Rightarrow> string \<Rightarrow> jsval list \<Rightarrow> (error + row list) \<times> 'db"

record 'db conn =
  store :: 'db
  executed :: "statement list"

definition db_query ::
  "'db db_exec \<Rightarrow> string \<Rightarrow> jsval list \<Rightarrow> 'db conn \<Rightarrow> (error + row list) \<times> 'db conn" where
  "db_query exec sql params c =
     (case exec (store c) sql params of
        (res, s') \<Rightarrow> (res, \<lparr>store = s', executed = executed c @ [(sql, params)]\<rparr>))"

text \<open>
  A store for running the models on concrete inputs: it answers the statements it
  receives with a prepared list of responses, one after the other, and with no rows
  once the list is used up.
\<close>

fun scripted :: "(error + row list) list db_exec" where
  "scripted [] sql params = (Inr [], [])"
| "scripted (r # rs) sql params = (r, rs)"

section \<open>models/company\<close>

definition Company_create_check_sql :: string where
  "Company_create_check_sql =
      ''SELECT handle\<newline>'' @
      ''           FROM companies\<newline>'' @
      ''           WHERE handle = $1''"

definition Company_create_insert_sql :: string where
  "Company_create_insert_sql =
      ''INSERT INTO companies\<newline>'' @
      ''           (handle, name, description, num_employees, logo_url)\<newline>'' @
      ''           VALUES ($1, $2, $3, $4, $5)\<newline>'' @
      ''           RETURNING handle, name, description, num_employees AS '' @ [dq] @ ''numEmployees'' @ [dq] @ '', logo_url AS '' @ [dq] @ ''logoUrl'' @ [dq]"

definition Company_create ::
  "'db db_exec \<Rightarrow> jsval jsobject \<Rightarrow> 'db conn \<Rightarrow> (error + row option) \<times> 'db conn" where
  "Company_create exec data c =
     (let handle = js_get data ''handle'';
          name = js_get data ''name'';
          description = js_get data ''description'';
          numEmployees = js_get data ''numEmployees'';
          logoUrl = js_get data ''logoUrl''
      in case db_query exec Company_create_check_sql [handle] c of
           (Inl e, c1) \<Rightarrow> (Inl e, c1)
         | (Inr duplicateCheck, c1) \<Rightarrow>
             if first_row duplicateCheck \<noteq> None
             then (Inl (BadRequestError (''Duplicate company: '' @ ToString handle)), c1)
             else
               (case db_query exec Company_create_insert_sql
                       [handle, name, description, numEmployees, logoUrl] c1 of
                  (Inl e, c2) \<Rightarrow> (Inl e, c2)
                | (Inr result, c2) \<Rightarrow> (Inr (first_row result), c2)))"

definition Company_findAll_select :: string where
  "Company_findAll_select =
      ''SELECT handle,\<newline>'' @
      ''                        name,\<newline>'' @
      ''                        description,\<newline>'' @
      ''                        num_employees AS '' @ [dq] @ ''numEmployees'' @ [dq] @ '',\<newline>'' @
      ''                        logo_url AS '' @ [dq] @ ''logoUrl'' @ [dq] @ ''\<newline>'' @
      ''                 FROM companies''"

text \<open>
  The three conditional blocks of \<^verbatim>\<open>Company.findAll\<close> that fill the arrays
  \<^verbatim>\<open>whereValues\<close> and \<^verbatim>\<open>queryValues\<close>, from both empty.
\<close>

definition Company_findAll_where :: "jsval \<Rightarrow> jsval \<Rightarrow> jsval \<Rightarrow> string list \<times> jsval list" where
  "Company_findAll_where name minEmployees maxEmployees =
     (let whereValues = []; queryValues = [];
          (whereValues, queryValues) =
            (if ToBoolean name then
               (let queryValues = queryValues @ [JStr (''%'' @ ToString name @ ''%'')];
                    whereValues = whereValues @ [''name ILIKE $'' @ string_of_nat (length queryValues)]
                in (whereValues, queryValues))
             else (whereValues, queryValues));
          (whereValues, queryValues) =
            (if ToBoolean minEmployees then
               (let queryValues = queryValues @ [minEmployees];
                    whereValues = whereValues @ [''num_employees >= $'' @ string_of_nat (length queryValues)]
                in (whereValues, queryValues))
             else (whereValues, queryValues));
          (whereValues, queryValues) =
            (if ToBoolean maxEmployees then
               (let queryValues = queryValues @ [maxEmployees];
                    whereValues = whereValues @ [''num_employees <= $'' @ string_of_nat (length queryValues)]
                in (whereValues, queryValues))
             else (whereValues, queryValues))
      in (whereValues, queryValues))"

text \<open>The statement text \<^verbatim>\<open>Company.findAll\<close> assembles from \<^verbatim>\<open>whereValues\<close>.\<close>

definition Company_findAll_query :: "string list \<Rightarrow> string" where
  "Company_findAll_query whereValues =
     (let query = Company_findAll_select;
          query = (if length whereValues > 0
                   then query @ '' WHERE '' @ js_join '' AND '' whereValues else query);
          query = query @ '' ORDER BY name''
      in query)"

definition Company_findAll ::
  "(string \<Rightarrow> jsnumber) \<Rightarrow> 'db db_exec \<Rightarrow> jsval jsobject option \<Rightarrow> 'db conn
     \<Rightarrow> (error + row list) \<times> 'db conn" where
  "Company_findAll stringToNumber exec arg c =
     (let searchFilters = (case arg of None \<Rightarrow> [] | Some filters \<Rightarrow> filters);
          name = js_get searchFilters ''name'';
          minEmployees = js_get searchFilters ''minEmployees'';
          maxEmployees = js_get searchFilters ''maxEmployees''
      in if js_gt stringToNumber minEmployees maxEmployees
         then (Inl (BadRequestError ''Min employees cannot be greater than the Max employees''), c)
         else
           (let (whereValues, queryValues) = Company_findAll_where name minEmployees maxEmployees
            in db_query exec (Company_findAll_query whereValues) queryValues c))"

definition Company_jsToSql :: "jsval jsobject" where
  "Company_jsToSql =
     [(''numEmployees'', JStr ''num_employees''), (''logoUrl'', JStr ''logo_url'')]"

definition Company_update_sql :: "string \<Rightarrow> string \<Rightarrow> string" where
  "Company_update_sql setClause handleVarIdx =
      ''UPDATE companies \<newline>'' @
      ''                      SET '' @ setClause @ '' \<newline>'' @
      ''                      WHERE handle = '' @ handleVarIdx @ '' \<newline>'' @
      ''                      RETURNING handle, \<newline>'' @
      ''                                name, \<newline>'' @
      ''                                description, \<newline>'' @
      ''                                num_employees AS '' @ [dq] @ ''numEmployees'' @ [dq] @ '', \<newline>'' @
      ''                                logo_url AS '' @ [dq] @ ''logoUrl'' @ [dq]"

definition Company_update ::
  "'db db_exec \<Rightarrow> jsval \<Rightarrow> jsval jsobject \<Rightarrow> 'db conn \<Rightarrow> (error + row) \<times> 'db conn" where
  "Company_update exec handle data c =
     (case sqlForPartialUpdate data Company_jsToSql of
        Inl e \<Rightarrow> (Inl e, c)
      | Inr r \<Rightarrow>
          (let handleVarIdx = ''$'' @ string_of_nat (length (values_of r) + 1);
               querySql = Company_update_sql (setCols r) handleVarIdx
           in case db_query exec querySql (values_of r @ [handle]) c of
                (Inl e, c1) \<Rightarrow> (Inl e, c1)
              | (Inr result, c1) \<Rightarrow>
                  (case first_row result of
                     None \<Rightarrow> (Inl (NotFoundError (''No company: '' @ ToString handle)), c1)
                   | Some company \<Rightarrow> (Inr company, c1))))"

section \<open>models/job\<close>

definition Job_findAll_select :: string where
  "Job_findAll_select =
      ''SELECT j.id,\<newline>'' @
      ''                        j.title,\<newline>'' @
      ''                        j.salary,\<newline>'' @
      ''                        j.equity,\<newline>'' @
      ''                        j.company_handle AS '' @ [dq] @ ''companyHandle'' @ [dq] @ '',\<newline>'' @
      ''                        c.name AS '' @ [dq] @ ''companyName'' @ [dq] @ ''\<newline>'' @
      ''                 FROM jobs AS j\<newline>'' @
      ''                    LEFT JOIN companies as c on c.handle = j.company_handle''"

text \<open>
  The three conditional blocks of \<^verbatim>\<open>Job.findAll\<close>; the last tests
  \<^verbatim>\<open>hasEquity === true\<close> and pushes no value.
\<close>

definition Job_findAll_where :: "jsval \<Rightarrow> jsval \<Rightarrow> jsval \<Rightarrow> string list \<times> jsval list" where
  "Job_findAll_where title minSalary hasEquity =
     (let whereValues = []; queryValues = [];
          (whereValues, queryValues) =
            (if ToBoolean title then
               (let queryValues = queryValues @ [JStr (''%'' @ ToString title @ ''%'')];
                    whereValues = whereValues @ [''title ILIKE $'' @ string_of_nat (length queryValues)]
                in (whereValues, queryValues))
             else (whereValues, queryValues));
          (whereValues, queryValues) =
            (if ToBoolean minSalary then
               (let queryValues = queryValues @ [minSalary];
                    whereValues = whereValues @ [''salary >= $'' @ string_of_nat (length queryValues)]
                in (whereValues, queryValues))
             else (whereValues, queryValues));
          whereValues =
            (if hasEquity = JBool True then whereValues @ [''equity > 0''] else whereValues)
      in (whereValues, queryValues))"

definition Job_findAll_query :: "string list \<Rightarrow> string" where
  "Job_findAll_query whereValues =
     (let query = Job_findAll_select;
          query = (if length whereValues > 0
                   then query @ '' WHERE '' @ js_join '' AND '' whereValues else query);
          query = query @ '' ORDER BY title''
      in query)"

definition Job_findAll ::
  "'db db_exec \<Rightarrow> jsval jsobject option \<Rightarrow> 'db conn \<Rightarrow> (error + row list) \<times> 'db conn" where
  "Job_findAll exec arg c =
     (let searchFilters = (case arg of None \<Rightarrow> [] | Some filters \<Rightarrow> filters);
          title = js_get searchFilters ''title'';
          minSalary = js_get searchFilters ''minSalary'';
          hasEquity = js_get searchFilters ''hasEquity'';
          (whereValues, queryValues) = Job_findAll_where title minSalary hasEquity
      in db_query exec (Job_findAll_query whereValues) queryValues c)"

definition Job_jsToSql :: "jsval jsobject" where
  "Job_jsToSql = []"

definition Job_update_sql :: "string \<Rightarrow> string \<Rightarrow> string" where
  "Job_update_sql setClause idVarIdx =
      ''UPDATE jobs \<newline>'' @
      ''                      SET '' @ setClause @ '' \<newline>'' @
      ''                      WHERE id = '' @ idVarIdx @ '' \<newline>'' @
      ''                      RETURNING id, \<newline>'' @
      ''                                title, \<newline>'' @
      ''                                salary, \<newline>'' @
      ''                                equity, \<newline>'' @
      ''                                company_handle AS '' @ [dq] @ ''companyHandle'' @ [dq]"

definition Job_update ::
  "'db db_exec \<Rightarrow> jsval \<Rightarrow> jsval jsobject \<Rightarrow> 'db conn \<Rightarrow> (error + row) \<times> 'db conn" where
  "Job_update exec id' data c =
     (case sqlForPartialUpdate data Job_jsToSql of
        Inl e \<Rightarrow> (Inl e, c)
      | Inr r \<Rightarrow>
          (let idVarIdx = ''$'' @ string_of_nat (length (values_of r) + 1);
               querySql = Job_update_sql (setCols r) idVarIdx
           in case db_query exec querySql (values_of r @ [id']) c of
                (Inl e, c1) \<Rightarrow> (Inl e, c1)
              | (Inr result, c1) \<Rightarrow>
                  (case first_row result of
                     None \<Rightarrow> (Inl (NotFoundError (''No job: '' @ ToString id')), c1)
                   | Some job \<Rightarrow> (Inr job, c1))))"

text \<open>Whether a text occurs in another: used to look for a keyword in a statement.\<close>

fun starts_with :: "string \<Rightarrow> string \<Rightarrow> bool" where
  "starts_with [] s = True"
| "starts_with (x # xs) [] = False"
| "starts_with (x # xs) (y # ys) = (x = y \<and> starts_with xs ys)"

fun occurs_in :: "string \<Rightarrow> string \<Rightarrow> bool" where
  "occurs_in w [] = (w = [])"
| "occurs_in w (y # ys) = (starts_with w (y # ys) \<or> occurs_in w ys)"

section \<open>The search predicate assembler, as specified\<close>

text \<open>
  The specification describes one algorithm behind both \<^verbatim>\<open>findAll\<close> functions: go
  through the recognised filters in a fixed order; each filter that counts as given
  appends one predicate and pushes one bound value, the predicate naming the position
  its value has in the values list.  Here a filter counts as given when its value is
  truthy.  \<open>bound_filter\<close> is one filter (the predicate text up to its placeholder,
  the filter's value, the value to bind) and \<open>numbered\<close> completes the predicates
  with their positions.
\<close>

definition bound_filter :: "string \<Rightarrow> jsval \<Rightarrow> jsval \<Rightarrow> (string \<times> jsval) list" where
  "bound_filter predicate v bound = (if ToBoolean v then [(predicate, bound)] else [])"

definition numbered :: "(string \<times> jsval) list \<Rightarrow> string list" where
  "numbered ps = map (\<lambda>(i, p). fst p @ string_of_nat (i + 1)) (enumerate 0 ps)"

section \<open>Reading a SET clause\<close>

text \<open>
  The names a text holds between double quotes, in order: the text from the first
  double quote to the second, from the third to the fourth, and so on.  In a clause
  made of fragments \<^verbatim>\<open>"column"=$n\<close> these are the columns it assigns.
\<close>

fun quoted_names :: "string \<Rightarrow> string list"
  and quoted_rest :: "string \<Rightarrow> string \<Rightarrow> string list" where
  "quoted_names [] = []"
| "quoted_names (ch # s) = (if ch = dq then quoted_rest [] s else quoted_names s)"
| "quoted_rest acc [] = []"
| "quoted_rest acc (ch # s) =
     (if ch = dq then rev acc # quoted_names s else quoted_rest (ch # acc) s)"

section \<open>Sample data\<close>

text \<open>
  A company record and the connections the examples run on.  No example compares a
  string with a number, so the examples take for \<open>stringToNumber\<close> a conversion that
  is never called.
\<close>

definition no_numeral :: "string \<Rightarrow> jsnumber" where
  "no_numeral s = NaN"

definition c1_data :: "jsval jsobject" where
  "c1_data =
     [(''handle'', JStr ''c1''), (''name'', JStr ''C1''), (''description'', JStr ''Desc1''),
      (''numEmployees'', JNum 1), (''logoUrl'', JStr ''http://c1.img'')]"

definition fresh_conn :: "(error + row list) list \<Rightarrow> (error + row list) list conn" where
  "fresh_conn responses = \<lparr>store = responses, executed = []\<rparr>"

section \<open>Numerals\<close>

lemma of_char_digit_char: "d < 10 \<Longrightarrow> (of_char (digit_char d) :: nat) = 48 + d"
proof -
  assume "d < 10"
  then have "d \<in> {0,1,2,3,4,5,6,7,8,9}" by auto
  then show ?thesis by (auto simp add: digit_char_def)
qed

lemma nat_of_digits_snoc: "nat_of_digits (s @ [ch]) = 10 * nat_of_digits s + (of_char ch - 48)"
  by (simp add: nat_of_digits_def)

text \<open>A position written by \<open>string_of_nat\<close> reads back as the same number.\<close>

lemma nat_of_digits_string_of_nat: "nat_of_digits (string_of_nat n) = n"
proof (induction n rule: string_of_nat.induct)
  case (1 n)
  show ?case
  proof (cases "n < 10")
    case True
    then show ?thesis
      by (simp add: string_of_nat.simps [of n] nat_of_digits_def of_char_digit_char)
  next
    case False
    with 1 have "nat_of_digits (string_of_nat (n div 10)) = n div 10" by simp
    with False show ?thesis
      by (simp add: string_of_nat.simps [of n] nat_of_digits_snoc of_char_digit_char)
  qed
qed

lemma string_of_nat_small:
  "string_of_nat (Suc 0) = ''1''"
  "string_of_nat (Suc (Suc 0)) = ''2''"
  "string_of_nat (Suc (Suc (Suc 0))) = ''3''"
  by (simp_all add: string_of_nat.simps digit_char_def nth_Cons')

section \<open>sqlForPartialUpdate\<close>

text \<open>
  C1.  For a non-empty \<open>dataToUpdate\<close> and any column map, the helper succeeds.  Its
  clause is the comma-joined list of one fragment per key, in the order of the keys:
  the fragment of the key at index \<open>i\<close> is its column name in double quotes, then
  \<^verbatim>\<open>=$\<close> and the position \<open>i + 1\<close>, so the positions run 1, 2, ... without a gap.
  The values list holds at index \<open>i\<close> the value of that same key.  Every position is
  written as the numeral that reads back as \<open>i + 1\<close>.
\<close>

theorem sqlForPartialUpdate_positions:
  assumes "dataToUpdate \<noteq> []"
  shows "sqlForPartialUpdate dataToUpdate jsToSql =
           Inr \<lparr>setCols = js_join '', ''
                    (map (\<lambda>i. [dq] @ column_name jsToSql (fst (dataToUpdate ! i)) @ [dq]
                                @ ''=$'' @ string_of_nat (i + 1))
                         [0..<length dataToUpdate]),
                values_of = map (\<lambda>i. snd (dataToUpdate ! i)) [0..<length dataToUpdate]\<rparr>
         \<and> (\<forall>i. nat_of_digits (string_of_nat (i + 1)) = i + 1)"
proof -
  have v: "map snd dataToUpdate = map (\<lambda>i. snd (dataToUpdate ! i)) [0..<length dataToUpdate]"
    by (rule nth_equalityI) simp_all
  have c: "map (\<lambda>(idx, colName). set_fragment jsToSql colName idx)
               (enumerate 0 (map fst dataToUpdate))
      = map (\<lambda>i. [dq] @ column_name jsToSql (fst (dataToUpdate ! i)) @ [dq]
                  @ ''=$'' @ string_of_nat (i + 1))
            [0..<length dataToUpdate]"
    by (rule nth_equalityI) (simp_all add: nth_enumerate_eq set_fragment_def)
  from assms have "sqlForPartialUpdate dataToUpdate jsToSql
     = Inr \<lparr>setCols = js_join '', ''
                (map (\<lambda>(idx, colName). set_fragment jsToSql colName idx)
                     (enumerate 0 (map fst dataToUpdate))),
            values_of = map snd dataToUpdate\<rparr>"
    by (simp add: sqlForPartialUpdate_def Object_keys_def Object_values_def Let_def)
  with v c show ?thesis by (simp add: nat_of_digits_string_of_nat)
qed

text \<open>The example of the helper's documentation.\<close>

theorem sqlForPartialUpdate_positions_witness:
  "[(''firstName'', JStr ''Aliya''), (''age'', JNum 32)] \<noteq> []
   \<and> sqlForPartialUpdate [(''firstName'', JStr ''Aliya''), (''age'', JNum 32)]
       [(''firstName'', JStr ''first_name'')]
     = Inr \<lparr>setCols = [dq] @ ''first_name'' @ [dq] @ ''=$1, '' @ [dq] @ ''age'' @ [dq] @ ''=$2'',
          values_of = [JStr ''Aliya'', JNum 32]\<rparr>"
  using sqlForPartialUpdate_positions
    [of "[(''firstName'', JStr ''Aliya''), (''age'', JNum 32)]"
        "[(''firstName'', JStr ''first_name'')]"]
  by (simp add: upt_rec column_name_def js_or_def js_get_def Object_prototype_get_def
      Object_prototype_functions_def string_of_nat.simps digit_char_def)

text \<open>
  C4.  With no entry in \<open>dataToUpdate\<close> the helper fails with the bad-request error
  \<^verbatim>\<open>No data\<close>, whatever the column map.  It does so before building any text; the two
  \<^verbatim>\<open>update\<close> functions that call it fail with the same error and leave the connection
  as it was, so no statement reaches the store.
\<close>

theorem sqlForPartialUpdate_no_data:
  "sqlForPartialUpdate [] jsToSql = Inl (BadRequestError ''No data'')
   \<and> Company_update exec handle [] c = (Inl (BadRequestError ''No data''), c)
   \<and> Job_update exec id' [] c = (Inl (BadRequestError ''No data''), c)"
  by (simp add: sqlForPartialUpdate_def Object_keys_def Company_update_def Job_update_def)

text \<open>
  C10.  When the column map has an entry for a key and that entry is falsy (the empty
  string, zero, \<^verbatim>\<open>NaN\<close>, \<^verbatim>\<open>null\<close>, \<^verbatim>\<open>false\<close>, \<^verbatim>\<open>undefined\<close>), the column name of
  the key's fragment is the key itself, exactly as for a key the map does not have.
  The falsy entry is never the column name: the column is empty only when the key is.
\<close>

theorem falsy_column_falls_back_to_key:
  assumes "map_of jsToSql k = Some v" and "\<not> ToBoolean v"
  shows "column_name jsToSql k = k
       \<and> set_fragment jsToSql k idx = [dq] @ k @ [dq] @ ''=$'' @ string_of_nat (idx + 1)
       \<and> sqlForPartialUpdate [(k, x)] jsToSql
           = Inr \<lparr>setCols = [dq] @ k @ [dq] @ ''=$1'', values_of = [x]\<rparr>
       \<and> (k \<noteq> [] \<longrightarrow> column_name jsToSql k \<noteq> [])"
  using assms
  by (simp add: column_name_def js_get_def js_or_def set_fragment_def sqlForPartialUpdate_def
      Object_keys_def Object_values_def string_of_nat.simps digit_char_def)

theorem falsy_column_falls_back_to_key_witness:
  "map_of [(''age'', JStr [])] ''age'' = Some (JStr []) \<and> \<not> ToBoolean (JStr [])
   \<and> ''age'' \<noteq> []
   \<and> sqlForPartialUpdate [(''age'', JNum 32)] [(''age'', JStr [])]
       = Inr \<lparr>setCols = [dq] @ ''age'' @ [dq] @ ''=$1'', values_of = [JNum 32]\<rparr>
   \<and> column_name [(''age'', JStr [])] ''age'' \<noteq> []"
  using falsy_column_falls_back_to_key [of "[(''age'', JStr [])]" "''age''" "JStr []" 0 "JNum 32"]
  by simp

section \<open>The predicates of findAll\<close>

lemma numbered_simps:
  "numbered [] = []"
  "numbered [p] = [fst p @ ''1'']"
  "numbered [p, q] = [fst p @ ''1'', fst q @ ''2'']"
  "numbered [p, q, r] = [fst p @ ''1'', fst q @ ''2'', fst r @ ''3'']"
  by (simp_all add: numbered_def string_of_nat.simps digit_char_def)

lemma numbered_nth:
  "length (numbered ps) = length ps"
  "i < length ps \<Longrightarrow> numbered ps ! i = fst (ps ! i) @ string_of_nat (i + 1)"
  by (simp_all add: numbered_def nth_enumerate_eq)

lemma Company_findAll_where_closed:
  "Company_findAll_where name mn mx =
     (let ps = bound_filter ''name ILIKE $'' name (JStr (''%'' @ ToString name @ ''%''))
             @ bound_filter ''num_employees >= $'' mn mn
             @ bound_filter ''num_employees <= $'' mx mx
      in (numbered ps, map snd ps))"
  by (simp add: Company_findAll_where_def bound_filter_def numbered_simps string_of_nat_small)

lemma Job_findAll_where_closed:
  "Job_findAll_where title ms he =
     (let ps = bound_filter ''title ILIKE $'' title (JStr (''%'' @ ToString title @ ''%''))
             @ bound_filter ''salary >= $'' ms ms
      in (numbered ps @ (if he = JBool True then [''equity > 0''] else []), map snd ps))"
  by (simp add: Job_findAll_where_def bound_filter_def numbered_simps string_of_nat_small)

text \<open>
  C2.  As stated the claim fails: a filter that is defined but falsy adds nothing.
  What holds is the claim with "present" read as truthy.  The predicates of
  \<^verbatim>\<open>Company.findAll\<close> are those of the truthy filters among name, minEmployees and
  maxEmployees, in this order, one each, and each names the position at which its
  value stands in the values list (the name's value wrapped in \<^verbatim>\<open>%\<close>); the values
  list holds exactly these values.  \<^verbatim>\<open>Job.findAll\<close> does the same for title and
  minSalary and then adds \<^verbatim>\<open>equity > 0\<close>, with no value, when hasEquity is
  \<^verbatim>\<open>true\<close>.  Positions are consecutive from 1: the predicate at index \<open>i\<close> carries
  the numeral of \<open>i + 1\<close>.
\<close>

theorem findAll_where_truthy_filters:
  "Company_findAll_where name minEmployees maxEmployees =
     (let ps = bound_filter ''name ILIKE $'' name (JStr (''%'' @ ToString name @ ''%''))
             @ bound_filter ''num_employees >= $'' minEmployees minEmployees
             @ bound_filter ''num_employees <= $'' maxEmployees maxEmployees
      in (numbered ps, map snd ps))
   \<and> Job_findAll_where title minSalary hasEquity =
     (let ps = bound_filter ''title ILIKE $'' title (JStr (''%'' @ ToString title @ ''%''))
             @ bound_filter ''salary >= $'' minSalary minSalary
      in (numbered ps @ (if hasEquity = JBool True then [''equity > 0''] else []), map snd ps))
   \<and> length (numbered ps) = length ps
   \<and> (\<forall>i < length ps. numbered ps ! i = fst (ps ! i) @ string_of_nat (i + 1)
         \<and> nat_of_digits (string_of_nat (i + 1)) = i + 1)"
  using Company_findAll_where_closed Job_findAll_where_closed numbered_nth
  by (simp add: nat_of_digits_string_of_nat)

theorem findAll_where_truthy_filters_witness:
  "Company_findAll_where (JStr ''net'') (JNum 10) JUndefined
     = ([''name ILIKE $1'', ''num_employees >= $2''], [JStr ''%net%'', JNum 10])
   \<and> Job_findAll_where JNull (JNum 50000) (JBool True)
     = ([''salary >= $1'', ''equity > 0''], [JNum 50000])
   \<and> (1 :: nat) < length [(''name ILIKE $'', JStr ''%net%''), (''num_employees >= $'', JNum 10)]
   \<and> numbered [(''name ILIKE $'', JStr ''%net%''), (''num_employees >= $'', JNum 10)] ! 1
       = ''num_employees >= $2''"
  using findAll_where_truthy_filters
    [of "JStr ''net''" "JNum 10" JUndefined JNull "JNum 50000" "JBool True"
        "[(''name ILIKE $'', JStr ''%net%''), (''num_employees >= $'', JNum 10)]"]
  by (simp add: bound_filter_def numbered_simps string_of_nat_small)

text \<open>
  The input that refutes C2 as stated: a name given as the empty string and a
  minEmployees (or minSalary) given as 0 are defined, and no predicate and no value comes
  of them; the statement \<^verbatim>\<open>Company.findAll\<close> then sends has no condition at all.
\<close>

theorem findAll_where_zero_filter_dropped:
  "JNum 0 \<noteq> JUndefined \<and> JStr [] \<noteq> JUndefined
   \<and> Company_findAll_where (JStr []) (JNum 0) JUndefined = ([], [])
   \<and> Job_findAll_where (JStr []) (JNum 0) JUndefined = ([], [])
   \<and> Company_findAll no_numeral scripted
        (Some [(''name'', JStr []), (''minEmployees'', JNum 0)]) (fresh_conn [])
      = (Inr [], \<lparr>store = [], executed = [(Company_findAll_select @ '' ORDER BY name'', [])]\<rparr>)"
  by (simp add: Company_findAll_where_def Job_findAll_where_def Company_findAll_def
      Company_findAll_query_def js_get_def js_gt_def db_query_def Object_prototype_get_def
      Object_prototype_functions_def fresh_conn_def)

text \<open>
  C7.  The third block of \<^verbatim>\<open>Job.findAll\<close> adds the predicate \<^verbatim>\<open>equity > 0\<close>, after
  the others, exactly when hasEquity is the boolean \<^verbatim>\<open>true\<close>, and never touches the
  values list.  With any other hasEquity the result is the one for an absent hasEquity:
  so for 1, for \<^verbatim>\<open>"yes"\<close> and for \<^verbatim>\<open>false\<close>.  No other block produces that predicate.
\<close>

theorem Job_findAll_equity_strictly_true:
  "Job_findAll_where title minSalary hasEquity =
     (fst (Job_findAll_where title minSalary JUndefined)
        @ (if hasEquity = JBool True then [''equity > 0''] else []),
      snd (Job_findAll_where title minSalary JUndefined))
   \<and> ''equity > 0'' \<notin> set (fst (Job_findAll_where title minSalary JUndefined))
   \<and> Job_findAll_where title minSalary (JNum 1) = Job_findAll_where title minSalary JUndefined
   \<and> Job_findAll_where title minSalary (JStr ''yes'') = Job_findAll_where title minSalary JUndefined
   \<and> Job_findAll_where title minSalary (JBool False) = Job_findAll_where title minSalary JUndefined"
  by (simp add: Job_findAll_where_def string_of_nat_small)

section \<open>The statements of findAll\<close>

lemma no_where_Company: "\<not> occurs_in ''WHERE'' (Company_findAll_query [])"
  by (simp add: Company_findAll_query_def Company_findAll_select_def)

lemma no_where_Job: "\<not> occurs_in ''WHERE'' (Job_findAll_query [])"
  by (simp add: Job_findAll_query_def Job_findAll_select_def)

lemma js_join_not_empty: "ws \<noteq> [] \<Longrightarrow> [] \<notin> set ws \<Longrightarrow> js_join sep ws \<noteq> []"
  by (induction sep ws rule: js_join.induct) auto

lemma Company_predicates_not_empty: "[] \<notin> set (fst (Company_findAll_where name mn mx))"
  by (simp add: Company_findAll_where_def)

lemma Job_predicates_not_empty: "[] \<notin> set (fst (Job_findAll_where title ms he))"
  by (simp add: Job_findAll_where_def)

lemma Company_values_empty:
  "fst (Company_findAll_where name mn mx) = [] \<Longrightarrow> snd (Company_findAll_where name mn mx) = []"
  by (simp add: Company_findAll_where_def split: if_splits)

lemma Job_values_empty:
  "fst (Job_findAll_where title ms he) = [] \<Longrightarrow> snd (Job_findAll_where title ms he) = []"
  by (simp add: Job_findAll_where_def split: if_splits)

text \<open>
  C5.  Whatever the filter values: when the blocks of \<^verbatim>\<open>Company.findAll\<close> (or of
  \<^verbatim>\<open>Job.findAll\<close>) generate no predicate, they push no value either and the statement
  text assembled does not contain \<^verbatim>\<open>WHERE\<close> anywhere; when they generate predicates,
  the text is the select, then \<^verbatim>\<open> WHERE \<close> followed by the predicates joined with
  \<^verbatim>\<open> AND \<close>, a text that is not empty, then the ordering.  This text, with the values
  list, is the one statement the function sends to the store (\<^verbatim>\<open>Company.findAll\<close>
  sends none when it rejects the bounds); a call without argument is a call with the
  empty filter object.
\<close>

theorem findAll_no_bare_where:
  "(case Company_findAll_where name minEmployees maxEmployees of
      (whereValues, queryValues) \<Rightarrow>
        if whereValues = []
        then queryValues = [] \<and> \<not> occurs_in ''WHERE'' (Company_findAll_query whereValues)
        else js_join '' AND '' whereValues \<noteq> []
           \<and> Company_findAll_query whereValues =
               Company_findAll_select @ '' WHERE '' @ js_join '' AND '' whereValues
                 @ '' ORDER BY name'')
   \<and> (case Job_findAll_where title minSalary hasEquity of
      (whereValues, queryValues) \<Rightarrow>
        if whereValues = []
        then queryValues = [] \<and> \<not> occurs_in ''WHERE'' (Job_findAll_query whereValues)
        else js_join '' AND '' whereValues \<noteq> []
           \<and> Job_findAll_query whereValues =
               Job_findAll_select @ '' WHERE '' @ js_join '' AND '' whereValues
                 @ '' ORDER BY title'')
   \<and> executed (snd (Company_findAll stringToNumber exec (Some filters) c)) =
     (if js_gt stringToNumber (js_get filters ''minEmployees'') (js_get filters ''maxEmployees'')
      then executed c
      else executed c @
        [(Company_findAll_query (fst (Company_findAll_where (js_get filters ''name'')
                 (js_get filters ''minEmployees'') (js_get filters ''maxEmployees''))),
          snd (Company_findAll_where (js_get filters ''name'')
                 (js_get filters ''minEmployees'') (js_get filters ''maxEmployees'')))])
   \<and> executed (snd (Job_findAll exec (Some filters) c)) =
      executed c @
        [(Job_findAll_query (fst (Job_findAll_where (js_get filters ''title'')
                 (js_get filters ''minSalary'') (js_get filters ''hasEquity''))),
          snd (Job_findAll_where (js_get filters ''title'')
                 (js_get filters ''minSalary'') (js_get filters ''hasEquity'')))]
   \<and> Company_findAll stringToNumber exec None c
       = Company_findAll stringToNumber exec (Some []) c
   \<and> Job_findAll exec None c = Job_findAll exec (Some []) c"
  (is "?company \<and> ?job \<and> ?sent")
proof -
  obtain cw cv where c: "Company_findAll_where name minEmployees maxEmployees = (cw, cv)"
    by (cases "Company_findAll_where name minEmployees maxEmployees")
  have "cw = [] \<Longrightarrow> cv = []"
    using Company_values_empty [of name minEmployees maxEmployees] c by simp
  moreover have "cw \<noteq> [] \<Longrightarrow> js_join '' AND '' cw \<noteq> []"
    using js_join_not_empty [of cw] Company_predicates_not_empty [of name minEmployees maxEmployees] c
    by simp
  moreover have "cw \<noteq> [] \<Longrightarrow> Company_findAll_query cw =
               Company_findAll_select @ '' WHERE '' @ js_join '' AND '' cw @ '' ORDER BY name''"
    by (simp add: Company_findAll_query_def)
  ultimately have company: ?company
    using c no_where_Company by simp
  obtain jw jv where j: "Job_findAll_where title minSalary hasEquity = (jw, jv)"
    by (cases "Job_findAll_where title minSalary hasEquity")
  have "jw = [] \<Longrightarrow> jv = []"
    using Job_values_empty [of title minSalary hasEquity] j by simp
  moreover have "jw \<noteq> [] \<Longrightarrow> js_join '' AND '' jw \<noteq> []"
    using js_join_not_empty [of jw] Job_predicates_not_empty [of title minSalary hasEquity] j
    by simp
  moreover have "jw \<noteq> [] \<Longrightarrow> Job_findAll_query jw =
               Job_findAll_select @ '' WHERE '' @ js_join '' AND '' jw @ '' ORDER BY title''"
    by (simp add: Job_findAll_query_def)
  ultimately have job: ?job
    using j no_where_Job by simp
  have sent: ?sent
    by (simp add: Company_findAll_def Job_findAll_def db_query_def Let_def split: prod.splits)
  from company job sent show ?thesis by (simp only: simp_thms)
qed

lemma js_gt_numbers: "js_gt stringToNumber (JNum a) (JNum b) = (sint b < sint a)"
proof -
  have "((of_int (sint b) :: rat) < of_int (sint a)) = (sint b < sint a)"
    by (rule of_int_less_iff)
  then show ?thesis
    by (simp add: js_gt_def del: of_int_sint)
qed

text \<open>
  C6.  When the filter object gives minEmployees and maxEmployees as numbers and the
  first is the greater, \<^verbatim>\<open>Company.findAll\<close> fails with the bad-request error and
  returns the connection as it received it: nothing was sent to the store.  This holds
  for every pair of numbers of the model and whatever the runtime's conversion of
  strings.
\<close>

theorem Company_findAll_min_greater_max:
  assumes "js_get filters ''minEmployees'' = JNum mn"
    and "js_get filters ''maxEmployees'' = JNum mx"
    and "sint mx < sint mn"
  shows "Company_findAll stringToNumber exec (Some filters) c =
           (Inl (BadRequestError ''Min employees cannot be greater than the Max employees''), c)"
  using assms by (simp add: Company_findAll_def js_gt_numbers)

theorem Company_findAll_min_greater_max_witness:
  "js_get [(''minEmployees'', JNum 10), (''maxEmployees'', JNum 5)] ''minEmployees'' = JNum 10
   \<and> js_get [(''minEmployees'', JNum 10), (''maxEmployees'', JNum 5)] ''maxEmployees'' = JNum 5
   \<and> sint (5 :: 54 word) < sint (10 :: 54 word)
   \<and> Company_findAll no_numeral scripted
        (Some [(''minEmployees'', JNum 10), (''maxEmployees'', JNum 5)])
        \<lparr>store = [Inr [c1_data]], executed = []\<rparr>
      = (Inl (BadRequestError ''Min employees cannot be greater than the Max employees''),
         \<lparr>store = [Inr [c1_data]], executed = []\<rparr>)"
  using Company_findAll_min_greater_max
    [of "[(''minEmployees'', JNum 10), (''maxEmployees'', JNum 5)]" 10 5 no_numeral scripted
        "\<lparr>store = [Inr [c1_data]], executed = []\<rparr>"]
  by (simp add: js_get_def)

section \<open>Company.create\<close>

text \<open>
  C3.  As stated the claim fails on the class of the error: there is no conflict error,
  a duplicate is reported with the bad-request error that invalid input gets.  The rest
  holds.  \<^verbatim>\<open>Company.create\<close> first sends the read of the handle.  When the read
  returns a row, the function fails with \<^verbatim>\<open>BadRequestError\<close> and the read is the only
  statement executed.  When it returns no row, the function sends the insert with the
  five fields and returns the first row of its result, or the error the insert throws.
\<close>

theorem Company_create_duplicate_check:
  assumes "exec (store c) Company_create_check_sql [js_get data ''handle'']
             = (Inr duplicateCheck, s1)"
  shows "if duplicateCheck \<noteq> []
         then Company_create exec data c =
                (Inl (BadRequestError (''Duplicate company: '' @ ToString (js_get data ''handle''))),
                 \<lparr>store = s1,
                  executed = executed c @ [(Company_create_check_sql, [js_get data ''handle''])]\<rparr>)
         else Company_create exec data c =
                (case exec s1 Company_create_insert_sql
                        [js_get data ''handle'', js_get data ''name'', js_get data ''description'',
                         js_get data ''numEmployees'', js_get data ''logoUrl''] of
                   (res, s2) \<Rightarrow>
                     (map_sum (\<lambda>e. e) first_row res,
                      \<lparr>store = s2,
                       executed = executed c @
                         [(Company_create_check_sql, [js_get data ''handle'']),
                          (Company_create_insert_sql,
                           [js_get data ''handle'', js_get data ''name'', js_get data ''description'',
                            js_get data ''numEmployees'', js_get data ''logoUrl''])]\<rparr>))"
  using assms
  by (cases duplicateCheck)
     (auto simp add: Company_create_def db_query_def first_row_def Let_def
       split: prod.splits sum.splits)

theorem Company_create_duplicate_check_witness:
  "scripted [Inr [[(''handle'', JStr ''c1'')]]] Company_create_check_sql [js_get c1_data ''handle'']
     = (Inr [[(''handle'', JStr ''c1'')]], [])
   \<and> Company_create scripted c1_data \<lparr>store = [Inr [[(''handle'', JStr ''c1'')]]], executed = []\<rparr>
     = (Inl (BadRequestError ''Duplicate company: c1''),
        \<lparr>store = [], executed = [(Company_create_check_sql, [JStr ''c1''])]\<rparr>)
   \<and> scripted [Inr [], Inr [c1_data]] Company_create_check_sql [js_get c1_data ''handle'']
     = (Inr [], [Inr [c1_data]])
   \<and> Company_create scripted c1_data \<lparr>store = [Inr [], Inr [c1_data]], executed = []\<rparr>
     = (Inr (Some c1_data),
        \<lparr>store = [],
         executed = [(Company_create_check_sql, [JStr ''c1'']),
                     (Company_create_insert_sql,
                      [JStr ''c1'', JStr ''C1'', JStr ''Desc1'', JNum 1, JStr ''http://c1.img''])]\<rparr>)"
  using Company_create_duplicate_check
      [of scripted "\<lparr>store = [Inr [[(''handle'', JStr ''c1'')]]], executed = []\<rparr>" c1_data
          "[[(''handle'', JStr ''c1'')]]" "[]"]
    Company_create_duplicate_check
      [of scripted "\<lparr>store = [Inr [], Inr [c1_data]], executed = []\<rparr>" c1_data "[]"
          "[Inr [c1_data]]"]
  by (simp add: js_get_def c1_data_def first_row_def)

text \<open>
  The input that refutes C3 as stated: creating a company whose handle the store
  already has fails with a \<^verbatim>\<open>BadRequestError\<close>, the class of the error that
  \<^verbatim>\<open>sqlForPartialUpdate\<close> raises for invalid input.
\<close>

theorem Company_create_duplicate_is_bad_request:
  "fst (Company_create scripted c1_data (fresh_conn [Inr [[(''handle'', JStr ''c1'')]]]))
     = Inl (BadRequestError ''Duplicate company: c1'')
   \<and> is_BadRequestError (BadRequestError ''Duplicate company: c1'')
   \<and> sqlForPartialUpdate ([] :: jsval jsobject) [] = Inl (BadRequestError ''No data'')
   \<and> is_BadRequestError (BadRequestError ''No data'')"
  by (simp add: Company_create_def db_query_def js_get_def first_row_def c1_data_def
      fresh_conn_def sqlForPartialUpdate_def Object_keys_def)

section \<open>Reading the clause back\<close>

lemma quoted_names_skip: "dq \<notin> set s \<Longrightarrow> quoted_names (s @ r) = quoted_names r"
  by (induction s) auto

lemma quoted_rest_name:
  "dq \<notin> set s \<Longrightarrow> quoted_rest acc (s @ dq # r) = (rev acc @ s) # quoted_names r"
  by (induction s arbitrary: acc) auto

lemma quoted_names_fragment:
  assumes "dq \<notin> set col"
  shows "quoted_names (dq # col @ dq # r) = col # quoted_names r"
  using quoted_rest_name [OF assms, of "[]" r] by simp

lemma quoted_names_none: "dq \<notin> set s \<Longrightarrow> quoted_names s = []"
  using quoted_names_skip [of s "[]"] by simp

lemma digit_char_no_quote: "d < 10 \<Longrightarrow> digit_char d \<noteq> dq"
proof -
  assume "d < 10"
  then have "d \<in> {0,1,2,3,4,5,6,7,8,9}" by auto
  then show ?thesis by (auto simp add: digit_char_def)
qed

lemma string_of_nat_no_quote: "dq \<notin> set (string_of_nat n)"
proof (induction n rule: string_of_nat.induct)
  case (1 n)
  show ?case
  proof (cases "n < 10")
    case True
    then show ?thesis
      using digit_char_no_quote [of n] by (simp add: string_of_nat.simps [of n])
  next
    case False
    with 1 have "dq \<notin> set (string_of_nat (n div 10))" by simp
    moreover have "digit_char (n mod 10) \<noteq> dq"
      by (rule digit_char_no_quote) simp
    ultimately show ?thesis
      using False by (simp add: string_of_nat.simps [of n])
  qed
qed

lemma quoted_names_join:
  "list_all (\<lambda>p. dq \<notin> set (fst p) \<and> dq \<notin> set (snd p)) ps \<Longrightarrow>
   quoted_names (js_join '', '' (map (\<lambda>p. [dq] @ fst p @ [dq] @ snd p) ps)) = map fst ps"
proof (induction ps rule: induct_list012)
  case 1
  then show ?case by simp
next
  case (2 p)
  then show ?case
    by (simp add: quoted_rest_name quoted_names_none)
next
  case (3 p q ps)
  then have tl: "quoted_names (js_join '', '' (map (\<lambda>p. [dq] @ fst p @ [dq] @ snd p) (q # ps)))
       = map fst (q # ps)"
    by simp
  from 3 have p: "dq \<notin> set (fst p)" "dq \<notin> set (snd p @ '', '')" by simp_all
  have "quoted_names (js_join '', '' (map (\<lambda>p. [dq] @ fst p @ [dq] @ snd p) (p # q # ps)))
      = quoted_names (dq # fst p @ dq # ((snd p @ '', '')
          @ js_join '', '' (map (\<lambda>p. [dq] @ fst p @ [dq] @ snd p) (q # ps))))"
    by simp
  also have "\<dots> = fst p # quoted_names ((snd p @ '', '')
          @ js_join '', '' (map (\<lambda>p. [dq] @ fst p @ [dq] @ snd p) (q # ps)))"
    by (rule quoted_names_fragment [OF p(1)])
  also have "\<dots> = fst p # quoted_names
          (js_join '', '' (map (\<lambda>p. [dq] @ fst p @ [dq] @ snd p) (q # ps)))"
    by (simp only: quoted_names_skip [OF p(2)])
  finally show ?case using tl by simp
qed

lemma column_name_Company_no_quote:
  "dq \<notin> set k \<Longrightarrow> dq \<notin> set (column_name Company_jsToSql k)"
  by (auto simp add: column_name_def js_get_def js_or_def Company_jsToSql_def
      Object_prototype_get_def Object_prototype_functions_def)

lemma column_name_Job_no_quote:
  "dq \<notin> set k \<Longrightarrow> dq \<notin> set (column_name Job_jsToSql k)"
  by (auto simp add: column_name_def js_get_def js_or_def Job_jsToSql_def
      Object_prototype_get_def Object_prototype_functions_def)

lemma quoted_names_clause:
  assumes "list_all (\<lambda>k. dq \<notin> set (column_name jsToSql k)) (map fst data)"
  shows "quoted_names (js_join '', ''
            (map (\<lambda>i. [dq] @ column_name jsToSql (fst (data ! i)) @ [dq]
                        @ ''=$'' @ string_of_nat (i + 1))
                 [0..<length data]))
         = map (column_name jsToSql) (map fst data)"
proof -
  let ?ps = "map (\<lambda>i. (column_name jsToSql (fst (data ! i)), ''=$'' @ string_of_nat (i + 1)))
                 [0..<length data]"
  have a: "list_all (\<lambda>p. dq \<notin> set (fst p) \<and> dq \<notin> set (snd p)) ?ps"
    using assms by (auto simp add: list_all_iff string_of_nat_no_quote)
  have b: "map (\<lambda>p. [dq] @ fst p @ [dq] @ snd p) ?ps
         = map (\<lambda>i. [dq] @ column_name jsToSql (fst (data ! i)) @ [dq]
                        @ ''=$'' @ string_of_nat (i + 1)) [0..<length data]"
    by simp
  have c: "map fst ?ps = map (column_name jsToSql) (map fst data)"
    by (rule nth_equalityI) simp_all
  have "quoted_names (js_join '', '' (map (\<lambda>p. [dq] @ fst p @ [dq] @ snd p) ?ps)) = map fst ?ps"
    by (rule quoted_names_join [OF a])
  then show ?thesis by (simp only: b c)
qed

lemma sqlForPartialUpdate_clause:
  assumes "data \<noteq> []"
  shows "sqlForPartialUpdate data jsToSql =
           Inr \<lparr>setCols = js_join '', ''
                    (map (\<lambda>i. [dq] @ column_name jsToSql (fst (data ! i)) @ [dq]
                                @ ''=$'' @ string_of_nat (i + 1))
                         [0..<length data]),
                values_of = map snd data\<rparr>"
proof -
  have c: "map (\<lambda>(idx, colName). set_fragment jsToSql colName idx) (enumerate 0 (map fst data))
      = map (\<lambda>i. [dq] @ column_name jsToSql (fst (data ! i)) @ [dq]
                  @ ''=$'' @ string_of_nat (i + 1))
            [0..<length data]"
    by (rule nth_equalityI) (simp_all add: nth_enumerate_eq set_fragment_def)
  from assms have "sqlForPartialUpdate data jsToSql
     = Inr \<lparr>setCols = js_join '', ''
                (map (\<lambda>(idx, colName). set_fragment jsToSql colName idx)
                     (enumerate 0 (map fst data))),
            values_of = map snd data\<rparr>"
    by (simp add: sqlForPartialUpdate_def Object_keys_def Object_values_def Let_def)
  with c show ?thesis by simp
qed

section \<open>update\<close>

text \<open>
  C8.  For non-empty data, \<^verbatim>\<open>Company.update\<close> takes its clause and values from
  \<^verbatim>\<open>sqlForPartialUpdate\<close> called with the column map of numEmployees to num_employees
  and logoUrl to logo_url.  It sends one statement, written out below: \<^verbatim>\<open>UPDATE companies\<close>,
  then \<^verbatim>\<open>SET\<close> with that clause, then the condition \<^verbatim>\<open>WHERE handle = $\<close> with the numeral
  of (number of values + 1), then the \<^verbatim>\<open>RETURNING\<close> list.  Its parameters are the values
  followed by the handle, so the handle is the last parameter and the one at the position
  the condition names.  It fails with the not-found error when the statement returns no
  row, returns the first row otherwise, and passes on an error of the store.
  \<^verbatim>\<open>Job.update\<close> does the same with the empty column map, the id and the jobs table.
\<close>

theorem update_binds_key_last:
  assumes "data \<noteq> []"
  shows "Company_jsToSql = [(''numEmployees'', JStr ''num_employees''), (''logoUrl'', JStr ''logo_url'')]
   \<and> (let setClause = js_join '', ''
                (map (\<lambda>i. [dq] @ column_name Company_jsToSql (fst (data ! i)) @ [dq]
                            @ ''=$'' @ string_of_nat (i + 1))
                     [0..<length data]);
          querySql =
              ''UPDATE companies \<newline>'' @
              ''                      SET '' @ setClause @ '' \<newline>'' @
              ''                      WHERE handle = $'' @ string_of_nat (length data + 1) @ '' \<newline>'' @
              ''                      RETURNING handle, \<newline>'' @
              ''                                name, \<newline>'' @
              ''                                description, \<newline>'' @
              ''                                num_employees AS '' @ [dq] @ ''numEmployees'' @ [dq] @ '', \<newline>'' @
              ''                                logo_url AS '' @ [dq] @ ''logoUrl'' @ [dq];
          params = map snd data @ [handle]
      in sqlForPartialUpdate data Company_jsToSql = Inr \<lparr>setCols = setClause, values_of = map snd data\<rparr>
       \<and> length params = length data + 1
       \<and> params ! length data = handle
       \<and> nat_of_digits (string_of_nat (length data + 1)) = length data + 1
       \<and> Company_update exec handle data c =
           (case exec (store c) querySql params of
              (res, s1) \<Rightarrow>
                ((case res of
                    Inl e \<Rightarrow> Inl e
                  | Inr [] \<Rightarrow> Inl (NotFoundError (''No company: '' @ ToString handle))
                  | Inr (company # rest) \<Rightarrow> Inr company),
                 \<lparr>store = s1, executed = executed c @ [(querySql, params)]\<rparr>)))
   \<and> Job_jsToSql = []
   \<and> (let setClause = js_join '', ''
                (map (\<lambda>i. [dq] @ column_name Job_jsToSql (fst (data ! i)) @ [dq]
                            @ ''=$'' @ string_of_nat (i + 1))
                     [0..<length data]);
          querySql =
              ''UPDATE jobs \<newline>'' @
              ''                      SET '' @ setClause @ '' \<newline>'' @
              ''                      WHERE id = $'' @ string_of_nat (length data + 1) @ '' \<newline>'' @
              ''                      RETURNING id, \<newline>'' @
              ''                                title, \<newline>'' @
              ''                                salary, \<newline>'' @
              ''                                equity, \<newline>'' @
              ''                                company_handle AS '' @ [dq] @ ''companyHandle'' @ [dq];
          params = map snd data @ [id']
      in sqlForPartialUpdate data Job_jsToSql = Inr \<lparr>setCols = setClause, values_of = map snd data\<rparr>
       \<and> length params = length data + 1
       \<and> params ! length data = id'
       \<and> nat_of_digits (string_of_nat (length data + 1)) = length data + 1
       \<and> Job_update exec id' data c =
           (case exec (store c) querySql params of
              (res, s1) \<Rightarrow>
                ((case res of
                    Inl e \<Rightarrow> Inl e
                  | Inr [] \<Rightarrow> Inl (NotFoundError (''No job: '' @ ToString id'))
                  | Inr (job # rest) \<Rightarrow> Inr job),
                 \<lparr>store = s1, executed = executed c @ [(querySql, params)]\<rparr>)))"
proof -
  have v: "(map snd data @ [x]) ! length data = x" for x :: jsval
    by (simp add: nth_append)
  note c = sqlForPartialUpdate_clause [OF assms]
  have company: "Company_jsToSql = [(''numEmployees'', JStr ''num_employees''), (''logoUrl'', JStr ''logo_url'')]"
    by (simp add: Company_jsToSql_def)
  have job: "Job_jsToSql = []"
    by (simp add: Job_jsToSql_def)
  show ?thesis
    unfolding Let_def
    apply (intro conjI)
             apply (rule company)
            apply (rule c)
           apply simp
          apply (rule v)
         apply (rule nat_of_digits_string_of_nat)
        apply (simp add: c Company_update_def Company_update_sql_def db_query_def first_row_def
        split: prod.splits sum.splits list.splits)
       apply (rule job)
      apply (rule c)
     apply simp
    apply (rule v)
   apply (rule nat_of_digits_string_of_nat)
  apply (simp add: c Job_update_def Job_update_sql_def db_query_def first_row_def
      split: prod.splits sum.splits list.splits)
  done
qed

theorem update_binds_key_last_witness:
  "[(''name'', JStr ''New''), (''numEmployees'', JNum 10)] \<noteq> []
   \<and> Company_update scripted (JStr ''c1'') [(''name'', JStr ''New''), (''numEmployees'', JNum 10)]
        \<lparr>store = [], executed = []\<rparr>
     = (Inl (NotFoundError ''No company: c1''),
        \<lparr>store = [],
         executed = [(''UPDATE companies \<newline>'' @
      ''                      SET '' @ [dq] @ ''name'' @ [dq] @ ''=$1, '' @ [dq] @ ''num_employees'' @ [dq] @ ''=$2'' @ '' \<newline>'' @
      ''                      WHERE handle = $3 \<newline>'' @
      ''                      RETURNING handle, \<newline>'' @
      ''                                name, \<newline>'' @
      ''                                description, \<newline>'' @
      ''                                num_employees AS '' @ [dq] @ ''numEmployees'' @ [dq] @ '', \<newline>'' @
      ''                                logo_url AS '' @ [dq] @ ''logoUrl'' @ [dq],
                      [JStr ''New'', JNum 10, JStr ''c1''])]\<rparr>)
   \<and> Job_update scripted (JNum 7) [(''name'', JStr ''New''), (''numEmployees'', JNum 10)]
        \<lparr>store = [], executed = []\<rparr>
     = (Inl (NotFoundError ''No job: 7''),
        \<lparr>store = [],
         executed = [(''UPDATE jobs \<newline>'' @
      ''                      SET '' @ [dq] @ ''name'' @ [dq] @ ''=$1, '' @ [dq] @ ''numEmployees'' @ [dq] @ ''=$2'' @ '' \<newline>'' @
      ''                      WHERE id = $3 \<newline>'' @
      ''                      RETURNING id, \<newline>'' @
      ''                                title, \<newline>'' @
      ''                                salary, \<newline>'' @
      ''                                equity, \<newline>'' @
      ''                                company_handle AS '' @ [dq] @ ''companyHandle'' @ [dq],
                      [JStr ''New'', JNum 10, JNum 7])]\<rparr>)"
proof -
  have h: "[(''name'', JStr ''New''), (''numEmployees'', JNum 10)] \<noteq> []" by simp
  have u: "[0..<length [(''name'', JStr ''New''), (''numEmployees'', JNum 10 :: jsval)]] = [0, 1]"
    by (simp add: upt_rec)
  have c: "column_name Company_jsToSql ''name'' = ''name''"
    "column_name Company_jsToSql ''numEmployees'' = ''num_employees''"
    "column_name Job_jsToSql ''name'' = ''name''"
    "column_name Job_jsToSql ''numEmployees'' = ''numEmployees''"
    by (simp_all add: column_name_def js_get_def js_or_def Object_prototype_get_def
        Object_prototype_functions_def Company_jsToSql_def Job_jsToSql_def)
  have n: "string_of_int 7 = ''7''"
    by (simp add: string_of_int_def string_of_nat.simps [of 7] digit_char_def)
  show ?thesis
    using update_binds_key_last
      [OF h, of "JStr ''c1''" scripted "\<lparr>store = [], executed = []\<rparr>" "JNum 7"]
    by (simp add: Let_def u c n string_of_nat_small)
qed



lemma update_executed:
  assumes "data \<noteq> []"
  shows "executed (snd (Company_update exec handle data c)) =
           executed c @
             [(Company_update_sql
                 (js_join '', ''
                    (map (\<lambda>i. [dq] @ column_name Company_jsToSql (fst (data ! i)) @ [dq]
                                @ ''=$'' @ string_of_nat (i + 1))
                         [0..<length data]))
                 (''$'' @ string_of_nat (length data + 1)),
               map snd data @ [handle])]"
    and "executed (snd (Job_update exec id' data c)) =
           executed c @
             [(Job_update_sql
                 (js_join '', ''
                    (map (\<lambda>i. [dq] @ column_name Job_jsToSql (fst (data ! i)) @ [dq]
                                @ ''=$'' @ string_of_nat (i + 1))
                         [0..<length data]))
                 (''$'' @ string_of_nat (length data + 1)),
               map snd data @ [id'])]"
  by (simp_all add: sqlForPartialUpdate_clause [OF assms] Company_update_def Job_update_def
      db_query_def Let_def split: prod.splits sum.splits option.splits)

lemma column_name_handle:
  "column_name Company_jsToSql k = ''handle'' \<longleftrightarrow> k = ''handle''"
  "column_name Job_jsToSql k = ''company_handle'' \<longleftrightarrow> k = ''company_handle''"
  by (auto simp add: column_name_def js_get_def js_or_def Company_jsToSql_def Job_jsToSql_def
      Object_prototype_get_def Object_prototype_functions_def)

lemma handle_among_columns:
  "''handle'' \<in> set (map (column_name Company_jsToSql) ks) \<longleftrightarrow> ''handle'' \<in> set ks"
  "''company_handle'' \<in> set (map (column_name Job_jsToSql) ks) \<longleftrightarrow> ''company_handle'' \<in> set ks"
proof -
  have c: "''handle'' = column_name Company_jsToSql k \<longleftrightarrow> k = ''handle''" for k
    using column_name_handle(1) [of k] by auto
  have j: "''company_handle'' = column_name Job_jsToSql k \<longleftrightarrow> k = ''company_handle''" for k
    using column_name_handle(2) [of k] by auto
  show "''handle'' \<in> set (map (column_name Company_jsToSql) ks) \<longleftrightarrow> ''handle'' \<in> set ks"
    by (auto simp add: c image_iff)
  show "''company_handle'' \<in> set (map (column_name Job_jsToSql) ks) \<longleftrightarrow> ''company_handle'' \<in> set ks"
    by (auto simp add: j image_iff)
qed

text \<open>
  C9.  As stated the claim fails: neither \<^verbatim>\<open>update\<close> inspects the keys of its data,
  the exclusion of the handle is left to the caller's validation.  What holds, for
  non-empty data none of whose keys contains a double quote: in the statement
  \<^verbatim>\<open>Company.update\<close> sends, the clause after \<^verbatim>\<open>SET\<close> names in double quotes exactly the
  columns resolved from the keys of the data, in their order, and \<^verbatim>\<open>handle\<close> is one of
  them exactly when it is a key; likewise \<^verbatim>\<open>company_handle\<close> for \<^verbatim>\<open>Job.update\<close>.  So
  such data without the key never assigns the identifying column.
\<close>

theorem update_assigns_handle_iff_key:
  assumes "data \<noteq> []" and "list_all (\<lambda>k. dq \<notin> set k) (Object_keys data)"
  shows "(let setClause = js_join '', ''
                (map (\<lambda>i. [dq] @ column_name Company_jsToSql (fst (data ! i)) @ [dq]
                            @ ''=$'' @ string_of_nat (i + 1))
                     [0..<length data]);
          querySql =
              ''UPDATE companies \<newline>'' @
              ''                      SET '' @ setClause @ '' \<newline>'' @
              ''                      WHERE handle = $'' @ string_of_nat (length data + 1) @ '' \<newline>'' @
              ''                      RETURNING handle, \<newline>'' @
              ''                                name, \<newline>'' @
              ''                                description, \<newline>'' @
              ''                                num_employees AS '' @ [dq] @ ''numEmployees'' @ [dq] @ '', \<newline>'' @
              ''                                logo_url AS '' @ [dq] @ ''logoUrl'' @ [dq]
      in executed (snd (Company_update exec handle data c))
           = executed c @ [(querySql, map snd data @ [handle])]
       \<and> quoted_names setClause = map (column_name Company_jsToSql) (Object_keys data)
       \<and> (''handle'' \<in> set (quoted_names setClause) \<longleftrightarrow> ''handle'' \<in> set (Object_keys data)))
   \<and> (let setClause = js_join '', ''
                (map (\<lambda>i. [dq] @ column_name Job_jsToSql (fst (data ! i)) @ [dq]
                            @ ''=$'' @ string_of_nat (i + 1))
                     [0..<length data]);
          querySql =
              ''UPDATE jobs \<newline>'' @
              ''                      SET '' @ setClause @ '' \<newline>'' @
              ''                      WHERE id = $'' @ string_of_nat (length data + 1) @ '' \<newline>'' @
              ''                      RETURNING id, \<newline>'' @
              ''                                title, \<newline>'' @
              ''                                salary, \<newline>'' @
              ''                                equity, \<newline>'' @
              ''                                company_handle AS '' @ [dq] @ ''companyHandle'' @ [dq]
      in executed (snd (Job_update exec id' data c))
           = executed c @ [(querySql, map snd data @ [id'])]
       \<and> quoted_names setClause = map (column_name Job_jsToSql) (Object_keys data)
       \<and> (''company_handle'' \<in> set (quoted_names setClause) \<longleftrightarrow> ''company_handle'' \<in> set (Object_keys data)))"
proof -
  from assms(2) have cq: "list_all (\<lambda>k. dq \<notin> set (column_name Company_jsToSql k)) (map fst data)"
    by (simp add: Object_keys_def list_all_iff column_name_Company_no_quote)
  from assms(2) have jq: "list_all (\<lambda>k. dq \<notin> set (column_name Job_jsToSql k)) (map fst data)"
    by (simp add: Object_keys_def list_all_iff column_name_Job_no_quote)
  note cn = quoted_names_clause [OF cq]
  note jn = quoted_names_clause [OF jq]
  note ex = update_executed [OF assms(1)]
  show ?thesis
    unfolding Let_def
    apply (intro conjI)
         apply (simp add: ex(1) Company_update_sql_def)
        apply (simp only: cn Object_keys_def)
       apply (simp only: cn handle_among_columns Object_keys_def)
      apply (simp add: ex(2) Job_update_sql_def)
     apply (simp only: jn Object_keys_def)
    apply (simp only: jn handle_among_columns Object_keys_def)
    done
qed

theorem update_assigns_handle_iff_key_witness:
  "[(''name'', JStr ''New''), (''numEmployees'', JNum 10)] \<noteq> []
   \<and> list_all (\<lambda>k. dq \<notin> set k) (Object_keys [(''name'', JStr ''New''), (''numEmployees'', JNum 10)])
   \<and> executed (snd (Company_update scripted (JStr ''c1'')
          [(''name'', JStr ''New''), (''numEmployees'', JNum 10)] (fresh_conn [])))
       = [(''UPDATE companies \<newline>'' @
      ''                      SET '' @ [dq] @ ''name'' @ [dq] @ ''=$1, '' @ [dq] @ ''num_employees'' @ [dq] @ ''=$2'' @ '' \<newline>'' @
      ''                      WHERE handle = $3 \<newline>'' @
      ''                      RETURNING handle, \<newline>'' @
      ''                                name, \<newline>'' @
      ''                                description, \<newline>'' @
      ''                                num_employees AS '' @ [dq] @ ''numEmployees'' @ [dq] @ '', \<newline>'' @
      ''                                logo_url AS '' @ [dq] @ ''logoUrl'' @ [dq],
           [JStr ''New'', JNum 10, JStr ''c1''])]
   \<and> quoted_names ([dq] @ ''name'' @ [dq] @ ''=$1, '' @ [dq] @ ''num_employees'' @ [dq] @ ''=$2'') = [''name'', ''num_employees'']
   \<and> ''handle'' \<notin> set (quoted_names ([dq] @ ''name'' @ [dq] @ ''=$1, '' @ [dq] @ ''num_employees'' @ [dq] @ ''=$2''))
   \<and> executed (snd (Job_update scripted (JNum 7)
          [(''name'', JStr ''New''), (''numEmployees'', JNum 10)] (fresh_conn [])))
       = [(''UPDATE jobs \<newline>'' @
      ''                      SET '' @ [dq] @ ''name'' @ [dq] @ ''=$1, '' @ [dq] @ ''numEmployees'' @ [dq] @ ''=$2'' @ '' \<newline>'' @
      ''                      WHERE id = $3 \<newline>'' @
      ''                      RETURNING id, \<newline>'' @
      ''                                title, \<newline>'' @
      ''                                salary, \<newline>'' @
      ''                                equity, \<newline>'' @
      ''                                company_handle AS '' @ [dq] @ ''companyHandle'' @ [dq],
           [JStr ''New'', JNum 10, JNum 7])]
   \<and> quoted_names ([dq] @ ''name'' @ [dq] @ ''=$1, '' @ [dq] @ ''numEmployees'' @ [dq] @ ''=$2'') = [''name'', ''numEmployees'']
   \<and> ''company_handle'' \<notin> set (quoted_names ([dq] @ ''name'' @ [dq] @ ''=$1, '' @ [dq] @ ''numEmployees'' @ [dq] @ ''=$2''))"
proof -
  have h: "[(''name'', JStr ''New''), (''numEmployees'', JNum 10)] \<noteq> []" by simp
  have q: "list_all (\<lambda>k. dq \<notin> set k)
             (Object_keys [(''name'', JStr ''New''), (''numEmployees'', JNum 10 :: jsval)])"
    by (simp add: Object_keys_def)
  have u: "[0..<length [(''name'', JStr ''New''), (''numEmployees'', JNum 10 :: jsval)]] = [0, 1]"
    by (simp add: upt_rec)
  have c: "column_name Company_jsToSql ''name'' = ''name''"
    "column_name Company_jsToSql ''numEmployees'' = ''num_employees''"
    "column_name Job_jsToSql ''name'' = ''name''"
    "column_name Job_jsToSql ''numEmployees'' = ''numEmployees''"
    by (simp_all add: column_name_def js_get_def js_or_def Object_prototype_get_def
        Object_prototype_functions_def Company_jsToSql_def Job_jsToSql_def)
  show ?thesis
    using update_assigns_handle_iff_key
      [OF h q, of scripted "JStr ''c1''" "fresh_conn []" "JNum 7"]
    by (simp add: Let_def u c string_of_nat_small fresh_conn_def Object_keys_def)
qed

text \<open>
  The input that refutes C9 as stated: data with the key \<^verbatim>\<open>handle\<close> makes
  \<^verbatim>\<open>Company.update\<close> send an update that assigns the handle column, and data with the
  key \<^verbatim>\<open>company_handle\<close> makes \<^verbatim>\<open>Job.update\<close> assign that column.
\<close>

theorem update_writes_handle_column:
  "Company_update scripted (JStr ''c1'') [(''handle'', JStr ''c2'')]
        (fresh_conn [Inr [[(''handle'', JStr ''c2'')]]])
     = (Inr [(''handle'', JStr ''c2'')],
        \<lparr>store = [],
         executed = [(Company_update_sql ([dq] @ ''handle'' @ [dq] @ ''=$1'') ''$2'',
                      [JStr ''c2'', JStr ''c1''])]\<rparr>)
   \<and> Job_update scripted (JNum 7) [(''company_handle'', JStr ''c2'')]
        (fresh_conn [Inr [[(''companyHandle'', JStr ''c2'')]]])
     = (Inr [(''companyHandle'', JStr ''c2'')],
        \<lparr>store = [],
         executed = [(Job_update_sql ([dq] @ ''company_handle'' @ [dq] @ ''=$1'') ''$2'',
                      [JStr ''c2'', JNum 7])]\<rparr>)"
  by (simp add: Company_update_def Job_update_def db_query_def first_row_def fresh_conn_def
      sqlForPartialUpdate_def Object_keys_def Object_values_def set_fragment_def
      column_name_def js_get_def js_or_def Object_prototype_get_def Object_prototype_functions_def
      Company_jsToSql_def Job_jsToSql_def string_of_nat_small string_of_nat.simps digit_char_def)


text \<open>
  The condition on the keys cannot be dropped: a key is copied into the clause as it is,
  and one that contains a double quote can bring an assignment of its own.
\<close>

lemma quote_in_key_adds_assignment:
  "''handle'' \<notin> set (Object_keys [(''name'' @ [dq] @ ''=$1, '' @ [dq] @ ''handle'', JStr ''c2'')])
   \<and> sqlForPartialUpdate [(''name'' @ [dq] @ ''=$1, '' @ [dq] @ ''handle'', JStr ''c2'')]
         Company_jsToSql
       = Inr \<lparr>setCols = [dq] @ ''name'' @ [dq] @ ''=$1, '' @ [dq] @ ''handle'' @ [dq] @ ''=$1'',
              values_of = [JStr ''c2'']\<rparr>
   \<and> quoted_names ([dq] @ ''name'' @ [dq] @ ''=$1, '' @ [dq] @ ''handle'' @ [dq] @ ''=$1'')
       = [''name'', ''handle'']"
  by (simp add: sqlForPartialUpdate_def Object_keys_def Object_values_def set_fragment_def
      column_name_def js_get_def js_or_def Object_prototype_get_def Object_prototype_functions_def
      Company_jsToSql_def string_of_nat_small)


end
